theory Spec2Isabelle
  imports Main
begin

section \<open>The \<open>start\<close> command of haul (\<open>src/commands/start.js\<close>)\<close>

text \<open>
  The command is an orchestration of calls to collaborators that live outside the file:
  the file system, the module loader, \<open>makeReactNativeConfig\<close>, the \<open>webpack\<close> factory,
  \<open>createServer\<close>, the shell \<open>exec\<close> helper, the console and the logger.  The embedding
  keeps the control flow of \<open>start\<close> as it is written and makes its effects explicit:
  \<^item> the answers of the collaborators are the fields of a record \<open>world\<close>;
  \<^item> every call with an effect is an \<open>event\<close>, and a run of \<open>start\<close> yields the list of
    events in the order of the calls, together with the state of the promise that the
    \<^verbatim>\<open>async function\<close> returns;
  \<^item> a \<^verbatim>\<open>throw\<close> is the promise state \<open>Rejected\<close>;
  \<^item> a callback handed to a collaborator is the function of what it does when called.
  Values that \<open>start\<close> only passes along (the raw configuration module, the compiler
  handle, the server, thrown values, entry points) have the type variable \<open>'v\<close>; the
  port, a JavaScript number, has the type variable \<open>'n\<close>.

  The calls that may throw in the model are \<open>require\<close>, \<open>makeReactNativeConfig\<close>,
  \<open>webpack\<close>, \<open>createServer\<close> and \<open>exec\<close>.  The console, the logger, the functions of
  \<open>messages\<close> and of \<open>path\<close>, and \<open>app.listen\<close> itself are taken to return normally.
\<close>

subsection \<open>Data\<close>

text \<open>\<open>opts\<close>, the parsed command line options.\<close>

record 'n opts =
  host :: string
  port :: 'n
  dev :: bool
  minify :: bool
  platform :: string

text \<open>
  A webpack configuration object: \<open>start\<close> reads its \<open>entry\<close> property only, the other
  properties are the extension of the record.
\<close>

record 'v webpack_config =
  entry :: 'v

text \<open>The \<open>stats\<close> object given to the build callback; \<open>stats.hasErrors()\<close> is the field.\<close>

record stats =
  hasErrors :: bool

text \<open>
  The value of the variable \<open>config\<close>: the array that \<open>makeReactNativeConfig\<close> returns,
  one of its elements, or \<open>undefined\<close> (what indexing an array out of range gives in
  JavaScript).
\<close>

datatype 'c config_value = Undefined | Config 'c | Configs "'c list"

text \<open>
  The module \<open>messages\<close> is not part of the sources.  Each message is kept as the name
  of the function that builds it, applied to the arguments that \<open>start\<close> gives it.
\<close>

datatype ('v, 'n) message =
    WebpackConfigNotFound string
  | BundleBuilding bool
  | BundleFailed
  | BundleBuilt "'v stats_scheme" string
  | CommandSuccess string
  | CommandFailed string 'v
  | InitialStartInformation "'v list" string 'n

text \<open>The methods of \<open>logger\<close> that \<open>start\<close> calls.\<close>

datatype level = Info | Warn | Error | Done

text \<open>What a callback does to the terminal: \<open>clear()\<close> and \<open>logger.<level>(message)\<close>.\<close>

datatype ('v, 'n) terminal = Clear | Log level "('v, 'n) message"

text \<open>
  What \<open>start\<close> and its callbacks throw: the \<open>MessageError\<close> of the source, the
  \<open>TypeError\<close> of reading a property of \<open>undefined\<close>, and whatever a collaborator threw.
\<close>

datatype ('v, 'n) js_error = MessageError "('v, 'n) message" | TypeError | Thrown 'v

text \<open>
  The state of a promise.  The value of a fulfilled promise is never read by \<open>start\<close>;
  \<open>Pending\<close> is a promise that never settles.
\<close>

datatype 'e promise = Fulfilled | Rejected 'e | Pending

text \<open>
  The calls of \<open>start\<close> that have an effect, with their arguments.  The callbacks of
  \<open>createServer\<close> take an argument; the callback of \<open>app.listen\<close> takes none, so it is the
  outcome of calling it.
\<close>

datatype ('v, 'n) event =
    Require string
  | MakeReactNativeConfig 'v string bool bool
  | Console "('v, 'n) terminal"
  | Webpack "('v, 'v) webpack_config_scheme config_value"
  | CreateServer 'v "bool \<Rightarrow> ('v, 'n) terminal list" "'v stats_scheme \<Rightarrow> ('v, 'n) terminal list"
  | Exec string
  | Listen 'v 'n string "('v, 'n) js_error + ('v, 'n) terminal list"

text \<open>
  The collaborators.  \<open>cwd\<close> is \<open>process.cwd()\<close>, \<open>ANDROID_HOME\<close> is
  \<open>process.env.ANDROID_HOME\<close> (\<open>None\<close> when unset), \<open>path_join\<close> and \<open>path_basename\<close> are
  \<open>path.join\<close> and \<open>path.basename\<close>, \<open>toString\<close> is the conversion of the port to a string
  in a template literal.  A collaborator that may throw returns a sum, \<open>Inl\<close> the thrown
  value.  \<open>makeReactNativeConfig\<close> takes the raw configuration and the fields \<open>root\<close>,
  \<open>dev\<close> and \<open>minify\<close> of its options object, and returns the pair \<open>[config, platforms]\<close>.
\<close>

record ('v, 'n) world =
  cwd :: string
  ANDROID_HOME :: "string option"
  existsSync :: "string \<Rightarrow> bool"
  path_join :: "string \<Rightarrow> string \<Rightarrow> string"
  path_basename :: "string \<Rightarrow> string"
  toString :: "'n \<Rightarrow> string"
  require :: "string \<Rightarrow> 'v + 'v"
  makeReactNativeConfig ::
    "'v \<Rightarrow> string \<Rightarrow> bool \<Rightarrow> bool \<Rightarrow> 'v + (('v, 'v) webpack_config_scheme list \<times> string list)"
  webpack :: "('v, 'v) webpack_config_scheme config_value \<Rightarrow> 'v + 'v"
  createServer :: "'v \<Rightarrow> 'v + 'v"
  exec :: "string \<Rightarrow> 'v promise"

subsection \<open>Array operations of JavaScript\<close>

text \<open>\<open>xs.indexOf(x)\<close>: the first index of \<open>x\<close>, or \<open>-1\<close>.\<close>

fun indexOf_from :: "'a list \<Rightarrow> 'a \<Rightarrow> int \<Rightarrow> int" where
  "indexOf_from [] x k = - 1"
| "indexOf_from (y # ys) x k = (if y = x then k else indexOf_from ys x (k + 1))"

definition indexOf :: "'a list \<Rightarrow> 'a \<Rightarrow> int" where
  "indexOf xs x = indexOf_from xs x 0"

text \<open>\<open>xs.includes(x)\<close>.\<close>

definition includes_elem :: "'a list \<Rightarrow> 'a \<Rightarrow> bool" where
  "includes_elem xs x = (x \<in> set xs)"

text \<open>\<open>config[i]\<close> on the array of configurations: \<open>undefined\<close> out of range.\<close>

definition at_index :: "'c list \<Rightarrow> int \<Rightarrow> 'c config_value" where
  "at_index cs i = (if 0 \<le> i \<and> i < int (length cs) then Config (cs ! nat i) else Undefined)"

subsection \<open>The callbacks\<close>

text \<open>The second argument of \<open>createServer\<close> (lines 57 to 64).\<close>

definition onBuildStart :: "bool \<Rightarrow> ('v, 'n) terminal list" where
  "onBuildStart didHaveIssues =
     [Clear,
      if didHaveIssues then Log Warn (BundleBuilding didHaveIssues)
      else Log Info (BundleBuilding didHaveIssues)]"

text \<open>The third argument of \<open>createServer\<close> (lines 65 to 77).\<close>

definition onBuildComplete :: "('n, 'z) opts_scheme \<Rightarrow> 'v stats_scheme \<Rightarrow> ('v, 'n) terminal list" where
  "onBuildComplete opts st =
     [Clear,
      if hasErrors st then Log Error BundleFailed
      else Log Done (BundleBuilt st (platform opts))]"

text \<open>
  The callback of \<open>app.listen\<close> (lines 104 to 114).  \<open>config.entry\<close> on \<open>undefined\<close>
  throws a \<open>TypeError\<close>.
\<close>

definition onListening ::
  "('n, 'z) opts_scheme \<Rightarrow> ('v, 'v) webpack_config_scheme config_value
     \<Rightarrow> ('v, 'n) js_error + ('v, 'n) terminal list" where
  "onListening opts config =
     (case config of
        Configs cs \<Rightarrow> Inr [Log Info (InitialStartInformation (map entry cs) (host opts) (port opts))]
      | Config c \<Rightarrow> Inr [Log Info (InitialStartInformation [entry c] (host opts) (port opts))]
      | Undefined \<Rightarrow> Inl TypeError)"

subsection \<open>\<open>start\<close>\<close>

text \<open>\<open>emit e rest\<close>: the call \<open>e\<close> happens, then the run goes on as \<open>rest\<close>.\<close>

definition emit :: "'ev \<Rightarrow> 'ev list \<times> 'r \<Rightarrow> 'ev list \<times> 'r" where
  "emit e rest = (e # fst rest, snd rest)"

text \<open>The constants \<open>args\<close> and \<open>adb\<close> of lines 82 to 85; the empty string is falsy.\<close>

definition args :: "('v, 'n) world \<Rightarrow> ('n, 'z) opts_scheme \<Rightarrow> string" where
  "args w opts = ''reverse tcp:'' @ toString w (port opts) @ '' tcp:'' @ toString w (port opts)"

definition adb :: "('v, 'n) world \<Rightarrow> string" where
  "adb w =
     (case ANDROID_HOME w of
        None \<Rightarrow> ''adb''
      | Some h \<Rightarrow> if h = [] then ''adb'' else h @ ''/platform-tools/adb'')"

text \<open>The value of \<open>config\<close> after lines 47 to 49.\<close>

definition select_config ::
  "('n, 'z) opts_scheme \<Rightarrow> 'c list \<Rightarrow> string list \<Rightarrow> 'c config_value" where
  "select_config opts config platforms =
     (if platform opts \<noteq> ''all'' \<and> includes_elem platforms (platform opts)
      then at_index config (indexOf platforms (platform opts))
      else Configs config)"

text \<open>Lines 104 to 114: \<open>app.listen\<close>, after which the function returns.\<close>

definition listen ::
  "('n, 'z) opts_scheme \<Rightarrow> 'v \<Rightarrow> ('v, 'v) webpack_config_scheme config_value
     \<Rightarrow> ('v, 'n) event list \<times> ('v, 'n) js_error promise" where
  "listen opts app config =
     ([Listen app (port opts) (host opts) (onListening opts config)], Fulfilled)"

text \<open>
  Lines 80 to 102: the \<open>adb reverse\<close> step, then the rest of the function.  The
  \<^verbatim>\<open>await\<close> of a promise that never settles leaves the promise of \<open>start\<close> pending.
\<close>

definition forward ::
  "('v, 'n) world \<Rightarrow> ('n, 'z) opts_scheme \<Rightarrow> 'v \<Rightarrow> ('v, 'v) webpack_config_scheme config_value
     \<Rightarrow> ('v, 'n) event list \<times> ('v, 'n) js_error promise" where
  "forward w opts app config =
     (if platform opts = ''android'' then
        emit (Exec (adb w @ '' '' @ args w opts))
          (case exec w (adb w @ '' '' @ args w opts) of
             Fulfilled \<Rightarrow>
               emit (Console (Log Info (CommandSuccess (path_basename w (adb w) @ '' '' @ args w opts))))
                 (listen opts app config)
           | Rejected error \<Rightarrow>
               emit (Console (Log Warn (CommandFailed (path_basename w (adb w) @ '' '' @ args w opts) error)))
                 (listen opts app config)
           | Pending \<Rightarrow> ([], Pending))
      else listen opts app config)"

text \<open>Lines 51 to 78: \<open>clear\<close>, the compiler and the server, then the rest.\<close>

definition serve ::
  "('v, 'n) world \<Rightarrow> ('n, 'z) opts_scheme \<Rightarrow> ('v, 'v) webpack_config_scheme config_value
     \<Rightarrow> ('v, 'n) event list \<times> ('v, 'n) js_error promise" where
  "serve w opts config =
     emit (Console Clear)
      (emit (Webpack config)
        (case webpack w config of
           Inl e \<Rightarrow> ([], Rejected (Thrown e))
         | Inr compiler \<Rightarrow>
             emit (CreateServer compiler onBuildStart (onBuildComplete opts))
               (case createServer w compiler of
                  Inl e \<Rightarrow> ([], Rejected (Thrown e))
                | Inr app \<Rightarrow> forward w opts app config)))"

text \<open>The function \<open>start\<close> (lines 24 to 115).\<close>

definition start ::
  "('v, 'n) world \<Rightarrow> ('n, 'z) opts_scheme \<Rightarrow> ('v, 'n) event list \<times> ('v, 'n) js_error promise" where
  "start w opts =
     (let directory = cwd w;
          configPath = path_join w directory ''webpack.haul.js''
      in if \<not> existsSync w configPath
         then ([], Rejected (MessageError (WebpackConfigNotFound directory)))
         else
           emit (Require configPath)
             (case require w configPath of
                Inl e \<Rightarrow> ([], Rejected (Thrown e))
              | Inr raw \<Rightarrow>
                  emit (MakeReactNativeConfig raw directory (dev opts) (minify opts))
                    (case makeReactNativeConfig w raw directory (dev opts) (minify opts) of
                       Inl e \<Rightarrow> ([], Rejected (Thrown e))
                     | Inr (config, platforms) \<Rightarrow>
                         serve w opts (select_config opts config platforms))))"

subsection \<open>The option table\<close>

text \<open>\<open>String(b)\<close> for a boolean.\<close>

definition String_of_bool :: "bool \<Rightarrow> string" where
  "String_of_bool b = (if b then ''true'' else ''false'')"

text \<open>The option \<open>dev\<close> (lines 134 to 149).\<close>

definition dev_default :: string where
  "dev_default = ''true''"

definition dev_parse :: "string \<Rightarrow> bool" where
  "dev_parse val = (val \<noteq> ''false'')"

text \<open>The option \<open>minify\<close> (lines 150 to 165); the default is computed from \<open>dev\<close>.\<close>

definition minify_default :: "bool \<Rightarrow> string" where
  "minify_default dev_flag = String_of_bool (\<not> dev_flag)"

definition minify_parse :: "string \<Rightarrow> bool" where
  "minify_parse val = (val \<noteq> ''false'')"

subsection \<open>Observations of a run\<close>

text \<open>The arguments of the calls of the \<open>webpack\<close> factory in a run, in order.\<close>

fun webpack_calls :: "('v, 'n) event list \<Rightarrow> ('v, 'v) webpack_config_scheme config_value list" where
  "webpack_calls [] = []"
| "webpack_calls (Webpack c # es) = c # webpack_calls es"
| "webpack_calls (e # es) = webpack_calls es"

text \<open>The commands given to \<open>exec\<close> in a run, in order.\<close>

fun exec_calls :: "('v, 'n) event list \<Rightarrow> string list" where
  "exec_calls [] = []"
| "exec_calls (Exec c # es) = c # exec_calls es"
| "exec_calls (e # es) = exec_calls es"

subsection \<open>A concrete project\<close>

text \<open>
  A project in \<open>/app\<close> with an iOS and an Android configuration, on a machine with the
  Android SDK in \<open>/sdk\<close> and no device attached, so that \<open>adb reverse\<close> fails.  Opaque
  values are strings and the port is a natural number, written in decimal.
\<close>

fun decimal :: "nat \<Rightarrow> string" where
  "decimal n =
     (if n < 10 then [''0123456789'' ! n]
      else decimal (n div 10) @ [''0123456789'' ! (n mod 10)])"

declare decimal.simps [simp del]

definition basename_posix :: "string \<Rightarrow> string" where
  "basename_posix p = rev (takeWhile (\<lambda>c. c \<noteq> CHR ''/'') (rev p))"

definition ios_config :: "(string, string) webpack_config_scheme" where
  "ios_config = \<lparr>entry = ''./index.ios.js'', \<dots> = ''ios bundle''\<rparr>"

definition android_config :: "(string, string) webpack_config_scheme" where
  "android_config = \<lparr>entry = ''./index.android.js'', \<dots> = ''android bundle''\<rparr>"

definition example_world :: "(string, nat) world" where
  "example_world =
     \<lparr>cwd = ''/app'',
      ANDROID_HOME = Some ''/sdk'',
      existsSync = (\<lambda>p. p = ''/app/webpack.haul.js''),
      path_join = (\<lambda>a b. a @ ''/'' @ b),
      path_basename = basename_posix,
      toString = decimal,
      require = (\<lambda>p. Inr ''module''),
      makeReactNativeConfig = (\<lambda>raw root d m. Inr ([ios_config, android_config], [''ios'', ''android''])),
      webpack = (\<lambda>c. Inr ''compiler''),
      createServer = (\<lambda>c. Inr ''app''),
      exec = (\<lambda>c. Rejected ''error: no devices/emulators found'')\<rparr>"

text \<open>The same machine with no \<open>webpack.haul.js\<close> anywhere.\<close>

definition missing_world :: "(string, nat) world" where
  "missing_world = example_world\<lparr>existsSync := (\<lambda>p. False)\<rparr>"

text \<open>The options of the scenarios of the specification, for a given platform.\<close>

definition example_opts :: "string \<Rightarrow> nat opts" where
  "example_opts p = \<lparr>host = ''127.0.0.1'', port = 8081, dev = True, minify = False, platform = p\<rparr>"

section \<open>Properties\<close>

subsection \<open>Auxiliary facts\<close>

lemma fst_emit: "fst (emit e rest) = e # fst rest"
  by (simp add: emit_def)

lemma snd_emit: "snd (emit e rest) = snd rest"
  by (simp add: emit_def)

lemma indexOf_from_present:
  "x \<in> set xs \<Longrightarrow>
     \<exists>i<length xs. indexOf_from xs x k = k + int i \<and> xs ! i = x \<and> (\<forall>j<i. xs ! j \<noteq> x)"
proof (induction xs arbitrary: k)
  case Nil
  then show ?case by simp
next
  case (Cons y ys)
  show ?case
  proof (cases "y = x")
    case True
    then show ?thesis by (intro exI [of _ 0]) simp
  next
    case False
    with Cons.prems have "x \<in> set ys" by simp
    from Cons.IH [OF this, of "k + 1"] obtain i where i:
      "i < length ys" "indexOf_from ys x (k + 1) = k + 1 + int i" "ys ! i = x"
      "\<forall>j<i. ys ! j \<noteq> x"
      by blast
    have "\<forall>j<Suc i. (y # ys) ! j \<noteq> x"
      using False i(4) by (auto simp: less_Suc_eq_0_disj)
    with False i show ?thesis
      by (intro exI [of _ "Suc i"]) simp
  qed
qed

lemma indexOf_present:
  assumes "x \<in> set xs"
  obtains i where "i < length xs" "indexOf xs x = int i" "xs ! i = x" "\<forall>j<i. xs ! j \<noteq> x"
  using indexOf_from_present [OF assms, of 0] unfolding indexOf_def by auto

lemma start_loaded:
  assumes "existsSync w (path_join w (cwd w) ''webpack.haul.js'')"
    and "require w (path_join w (cwd w) ''webpack.haul.js'') = Inr raw"
    and "makeReactNativeConfig w raw (cwd w) (dev opts) (minify opts) = Inr (cs, ps)"
  shows "start w opts =
           emit (Require (path_join w (cwd w) ''webpack.haul.js''))
             (emit (MakeReactNativeConfig raw (cwd w) (dev opts) (minify opts))
               (serve w opts (select_config opts cs ps)))"
  using assms by (simp add: start_def Let_def)

lemma start_served:
  assumes "existsSync w (path_join w (cwd w) ''webpack.haul.js'')"
    and "require w (path_join w (cwd w) ''webpack.haul.js'') = Inr raw"
    and "makeReactNativeConfig w raw (cwd w) (dev opts) (minify opts) = Inr (cs, ps)"
    and "webpack w (select_config opts cs ps) = Inr compiler"
    and "createServer w compiler = Inr app"
  shows "start w opts =
           emit (Require (path_join w (cwd w) ''webpack.haul.js''))
             (emit (MakeReactNativeConfig raw (cwd w) (dev opts) (minify opts))
               (emit (Console Clear)
                 (emit (Webpack (select_config opts cs ps))
                   (emit (CreateServer compiler onBuildStart (onBuildComplete opts))
                     (forward w opts app (select_config opts cs ps))))))"
  using assms(4,5) by (simp add: start_loaded [OF assms(1-3)] serve_def)

lemma webpack_calls_listen: "webpack_calls (fst (listen opts app c)) = []"
  by (simp add: listen_def)

lemma webpack_calls_forward: "webpack_calls (fst (forward w opts app c)) = []"
  by (simp add: forward_def fst_emit webpack_calls_listen split: promise.split)

lemma webpack_calls_serve: "webpack_calls (fst (serve w opts c)) = [c]"
  by (simp add: serve_def fst_emit webpack_calls_forward split: sum.split)

lemma webpack_calls_start:
  assumes "existsSync w (path_join w (cwd w) ''webpack.haul.js'')"
    and "require w (path_join w (cwd w) ''webpack.haul.js'') = Inr raw"
    and "makeReactNativeConfig w raw (cwd w) (dev opts) (minify opts) = Inr (cs, ps)"
  shows "webpack_calls (fst (start w opts)) = [select_config opts cs ps]"
  by (simp add: start_loaded [OF assms] fst_emit webpack_calls_serve)

lemma exec_calls_listen: "exec_calls (fst (listen opts app c)) = []"
  by (simp add: listen_def)

lemma exec_calls_forward:
  "exec_calls (fst (forward w opts app c)) =
     (if platform opts = ''android'' then [adb w @ '' '' @ args w opts] else [])"
  by (simp add: forward_def fst_emit exec_calls_listen split: promise.split)

lemma exec_calls_serve_other:
  "platform opts \<noteq> ''android'' \<Longrightarrow> exec_calls (fst (serve w opts c)) = []"
  by (simp add: serve_def fst_emit exec_calls_forward split: sum.split)

lemma forward_not_rejected: "snd (forward w opts app c) \<noteq> Rejected e"
  by (simp add: forward_def listen_def snd_emit split: promise.split)

lemma forward_rejected_exec:
  assumes "platform opts = ''android''"
    and "exec w (adb w @ '' '' @ args w opts) = Rejected err"
  shows "forward w opts app c =
           ([Exec (adb w @ '' '' @ args w opts),
             Console (Log Warn (CommandFailed (path_basename w (adb w) @ '' '' @ args w opts) err)),
             Listen app (port opts) (host opts) (onListening opts c)], Fulfilled)"
  using assms by (simp add: forward_def listen_def emit_def)

lemma forward_settled:
  assumes "platform opts = ''android'' \<longrightarrow> exec w (adb w @ '' '' @ args w opts) \<noteq> Pending"
  shows "snd (forward w opts app c) = Fulfilled \<and>
         fst (forward w opts app c) \<noteq> [] \<and>
         last (fst (forward w opts app c)) = Listen app (port opts) (host opts) (onListening opts c)"
  using assms by (auto simp add: forward_def listen_def emit_def split: promise.split)

text \<open>Reading \<open>entry\<close> of \<open>undefined\<close> in the callback of \<open>app.listen\<close> throws.\<close>

lemma onListening_undefined: "onListening opts Undefined = Inl TypeError"
  by (simp add: onListening_def)

text \<open>The concrete project, evaluated.\<close>

lemma example_exists:
  "existsSync example_world (path_join example_world (cwd example_world) ''webpack.haul.js'')"
  by (simp add: example_world_def)

lemma example_require:
  "require example_world (path_join example_world (cwd example_world) ''webpack.haul.js'') = Inr ''module''"
  by (simp add: example_world_def)

lemma example_configs:
  "makeReactNativeConfig example_world ''module'' (cwd example_world)
     (dev (example_opts p)) (minify (example_opts p)) =
   Inr ([ios_config, android_config], [''ios'', ''android''])"
  by (simp add: example_world_def)

lemma example_webpack: "webpack example_world c = Inr ''compiler''"
  by (simp add: example_world_def)

lemma example_createServer: "createServer example_world ''compiler'' = Inr ''app''"
  by (simp add: example_world_def)

lemma example_adb: "adb example_world = ''/sdk/platform-tools/adb''"
  by (simp add: adb_def example_world_def)

lemma example_args: "args example_world (example_opts p) = ''reverse tcp:8081 tcp:8081''"
  by (simp add: args_def example_world_def example_opts_def decimal.simps)

lemma example_basename: "path_basename example_world ''/sdk/platform-tools/adb'' = ''adb''"
  by (simp add: example_world_def basename_posix_def)

lemma example_select_android:
  "select_config (example_opts ''android'') [ios_config, android_config] [''ios'', ''android''] =
     Config android_config"
  by (simp add: select_config_def example_opts_def includes_elem_def indexOf_def at_index_def)

subsection \<open>The configuration given to the compiler\<close>

text \<open>
  Claim C1.  When the requested platform is not \<open>all\<close> and occurs in the platform list
  that \<open>makeReactNativeConfig\<close> returned, the \<open>webpack\<close> factory is called exactly once,
  with \<open>config[i]\<close> for the first index \<open>i\<close> at which the platform occurs in the platform
  list: the single configuration at that position (\<open>undefined\<close> if the configuration array
  is shorter), and not the whole array.
\<close>

theorem start_compiles_selected_platform:
  assumes "existsSync w (path_join w (cwd w) ''webpack.haul.js'')"
    and "require w (path_join w (cwd w) ''webpack.haul.js'') = Inr raw"
    and "makeReactNativeConfig w raw (cwd w) (dev opts) (minify opts) = Inr (cs, ps)"
    and "platform opts \<noteq> ''all''"
    and "platform opts \<in> set ps"
  shows "\<exists>i<length ps.
           ps ! i = platform opts \<and> (\<forall>j<i. ps ! j \<noteq> platform opts) \<and>
           webpack_calls (fst (start w opts)) = [if i < length cs then Config (cs ! i) else Undefined] \<and>
           webpack_calls (fst (start w opts)) \<noteq> [Configs cs]"
proof -
  from assms(5) obtain i where i: "i < length ps" "indexOf ps (platform opts) = int i"
    "ps ! i = platform opts" "\<forall>j<i. ps ! j \<noteq> platform opts"
    by (rule indexOf_present)
  have "select_config opts cs ps = (if i < length cs then Config (cs ! i) else Undefined)"
    using assms(4,5) i(2) by (simp add: select_config_def includes_elem_def at_index_def)
  with webpack_calls_start [OF assms(1-3)] i show ?thesis
    by (intro exI [of _ i]) simp
qed

text \<open>The first scenario of the specification: for \<open>ios\<close> the compiler gets the iOS configuration only.\<close>

theorem start_compiles_selected_platform_witness:
  "platform (example_opts ''ios'') \<noteq> ''all'' \<and>
   platform (example_opts ''ios'') \<in> set [''ios'', ''android''] \<and>
   webpack_calls (fst (start example_world (example_opts ''ios''))) = [Config ios_config]"
proof -
  have h4: "platform (example_opts ''ios'') \<noteq> ''all''"
    by (simp add: example_opts_def)
  have h5: "platform (example_opts ''ios'') \<in> set [''ios'', ''android'']"
    by (simp add: example_opts_def)
  from start_compiles_selected_platform [OF example_exists example_require example_configs h4 h5]
  have "webpack_calls (fst (start example_world (example_opts ''ios''))) = [Config ios_config]"
    by (auto simp add: less_Suc_eq example_opts_def)
  with h4 h5 show ?thesis by simp
qed

text \<open>
  Claim C2.  When the requested platform is \<open>all\<close>, or does not occur in the platform
  list, the \<open>webpack\<close> factory is called exactly once, with the whole configuration array as
  \<open>makeReactNativeConfig\<close> returned it, and the run does not fail for that reason.
\<close>

theorem start_compiles_all_configs:
  assumes "existsSync w (path_join w (cwd w) ''webpack.haul.js'')"
    and "require w (path_join w (cwd w) ''webpack.haul.js'') = Inr raw"
    and "makeReactNativeConfig w raw (cwd w) (dev opts) (minify opts) = Inr (cs, ps)"
    and "platform opts = ''all'' \<or> platform opts \<notin> set ps"
  shows "webpack_calls (fst (start w opts)) = [Configs cs]"
  using webpack_calls_start [OF assms(1-3)] assms(4)
  by (auto simp add: select_config_def includes_elem_def)

text \<open>For \<open>all\<close>, and for a platform that the project does not have, the compiler gets both configurations.\<close>

theorem start_compiles_all_configs_witness:
  "(platform (example_opts ''all'') = ''all'' \<or>
      platform (example_opts ''all'') \<notin> set [''ios'', ''android'']) \<and>
   webpack_calls (fst (start example_world (example_opts ''all''))) =
     [Configs [ios_config, android_config]] \<and>
   (platform (example_opts ''web'') = ''all'' \<or>
      platform (example_opts ''web'') \<notin> set [''ios'', ''android'']) \<and>
   webpack_calls (fst (start example_world (example_opts ''web''))) =
     [Configs [ios_config, android_config]]"
proof -
  have a: "platform (example_opts ''all'') = ''all'' \<or>
      platform (example_opts ''all'') \<notin> set [''ios'', ''android'']"
    by (simp add: example_opts_def)
  have b: "platform (example_opts ''web'') = ''all'' \<or>
      platform (example_opts ''web'') \<notin> set [''ios'', ''android'']"
    by (simp add: example_opts_def)
  show ?thesis
    using a b start_compiles_all_configs [OF example_exists example_require example_configs a]
      start_compiles_all_configs [OF example_exists example_require example_configs b]
    by simp
qed

subsection \<open>The missing configuration file\<close>

text \<open>
  Claim C3.  When no file exists at \<open>path.join(process.cwd(), 'webpack.haul.js')\<close>, the run
  has no event at all (no module is loaded, no configuration made, no compiler and no
  server created) and the promise is rejected with a \<open>MessageError\<close> whose message is
  \<open>webpackConfigNotFound\<close> built from the working directory.
\<close>

theorem start_missing_config:
  assumes "\<not> existsSync w (path_join w (cwd w) ''webpack.haul.js'')"
  shows "start w opts = ([], Rejected (MessageError (WebpackConfigNotFound (cwd w))))"
  using assms by (simp add: start_def Let_def)

text \<open>Without the file, the run of the concrete project fails at once.\<close>

theorem start_missing_config_witness:
  "\<not> existsSync missing_world (path_join missing_world (cwd missing_world) ''webpack.haul.js'') \<and>
   start missing_world (example_opts ''ios'') =
     ([], Rejected (MessageError (WebpackConfigNotFound ''/app'')))"
proof -
  have h: "\<not> existsSync missing_world (path_join missing_world (cwd missing_world) ''webpack.haul.js'')"
    by (simp add: missing_world_def)
  have "cwd missing_world = ''/app''"
    by (simp add: missing_world_def example_world_def)
  with h start_missing_config [OF h, of "example_opts ''ios''"] show ?thesis by simp
qed

subsection \<open>Port forwarding\<close>

text \<open>
  Claim C4.  In a run for \<open>android\<close> that reaches the port forwarding step, whatever
  \<open>exec\<close> does, the promise of \<open>start\<close> is not rejected; when the promise of \<open>exec\<close>
  settles, \<open>start\<close> ends with \<open>app.listen\<close> on the port and host of the options; and when
  \<open>exec\<close> fails, the failure is logged once, with \<open>logger.warn\<close>, and \<open>app.listen\<close> is
  the next call.
\<close>

theorem start_forward_failure_caught:
  assumes "existsSync w (path_join w (cwd w) ''webpack.haul.js'')"
    and "require w (path_join w (cwd w) ''webpack.haul.js'') = Inr raw"
    and "makeReactNativeConfig w raw (cwd w) (dev opts) (minify opts) = Inr (cs, ps)"
    and "webpack w (select_config opts cs ps) = Inr compiler"
    and "createServer w compiler = Inr app"
    and "platform opts = ''android''"
  shows "(\<forall>e. snd (start w opts) \<noteq> Rejected e) \<and>
         (exec w (adb w @ '' '' @ args w opts) \<noteq> Pending \<longrightarrow>
            snd (start w opts) = Fulfilled \<and>
            last (fst (start w opts)) =
              Listen app (port opts) (host opts) (onListening opts (select_config opts cs ps))) \<and>
         (\<forall>err. exec w (adb w @ '' '' @ args w opts) = Rejected err \<longrightarrow>
            start w opts =
              ([Require (path_join w (cwd w) ''webpack.haul.js''),
                MakeReactNativeConfig raw (cwd w) (dev opts) (minify opts),
                Console Clear,
                Webpack (select_config opts cs ps),
                CreateServer compiler onBuildStart (onBuildComplete opts),
                Exec (adb w @ '' '' @ args w opts),
                Console (Log Warn (CommandFailed (path_basename w (adb w) @ '' '' @ args w opts) err)),
                Listen app (port opts) (host opts) (onListening opts (select_config opts cs ps))],
               Fulfilled))"
proof (intro conjI allI impI)
  fix e
  show "snd (start w opts) \<noteq> Rejected e"
    by (simp add: start_served [OF assms(1-5)] snd_emit forward_not_rejected)
next
  assume "exec w (adb w @ '' '' @ args w opts) \<noteq> Pending"
  then have "platform opts = ''android'' \<longrightarrow> exec w (adb w @ '' '' @ args w opts) \<noteq> Pending"
    by simp
  from forward_settled [OF this, of app "select_config opts cs ps"]
  show "snd (start w opts) = Fulfilled"
    and "last (fst (start w opts)) =
      Listen app (port opts) (host opts) (onListening opts (select_config opts cs ps))"
    by (simp_all add: start_served [OF assms(1-5)] snd_emit fst_emit)
next
  fix err
  assume "exec w (adb w @ '' '' @ args w opts) = Rejected err"
  from forward_rejected_exec [OF assms(6) this]
  show "start w opts =
      ([Require (path_join w (cwd w) ''webpack.haul.js''),
        MakeReactNativeConfig raw (cwd w) (dev opts) (minify opts),
        Console Clear,
        Webpack (select_config opts cs ps),
        CreateServer compiler onBuildStart (onBuildComplete opts),
        Exec (adb w @ '' '' @ args w opts),
        Console (Log Warn (CommandFailed (path_basename w (adb w) @ '' '' @ args w opts) err)),
        Listen app (port opts) (host opts) (onListening opts (select_config opts cs ps))],
       Fulfilled)"
    by (simp add: start_served [OF assms(1-5)] emit_def)
qed

text \<open>The whole run for \<open>android\<close> with no device attached.\<close>

theorem start_forward_failure_caught_witness:
  "platform (example_opts ''android'') = ''android'' \<and>
   exec example_world ''/sdk/platform-tools/adb reverse tcp:8081 tcp:8081'' =
     Rejected ''error: no devices/emulators found'' \<and>
   start example_world (example_opts ''android'') =
     ([Require ''/app/webpack.haul.js'',
       MakeReactNativeConfig ''module'' ''/app'' True False,
       Console Clear,
       Webpack (Config android_config),
       CreateServer ''compiler'' onBuildStart (onBuildComplete (example_opts ''android'')),
       Exec ''/sdk/platform-tools/adb reverse tcp:8081 tcp:8081'',
       Console (Log Warn (CommandFailed ''adb reverse tcp:8081 tcp:8081''
         ''error: no devices/emulators found'')),
       Listen ''app'' 8081 ''127.0.0.1''
         (Inr [Log Info (InitialStartInformation [''./index.android.js''] ''127.0.0.1'' 8081)])],
      Fulfilled)"
proof -
  have h6: "platform (example_opts ''android'') = ''android''"
    by (simp add: example_opts_def)
  have ex: "exec example_world (adb example_world @ '' '' @ args example_world (example_opts ''android'')) =
      Rejected ''error: no devices/emulators found''"
    by (simp add: example_world_def)
  have ex': "exec example_world ''/sdk/platform-tools/adb reverse tcp:8081 tcp:8081'' =
     Rejected ''error: no devices/emulators found''"
    by (simp add: example_world_def)
  have vals: "path_join example_world ''/app'' ''webpack.haul.js'' = ''/app/webpack.haul.js''"
    "cwd example_world = ''/app''" "dev (example_opts ''android'')" "\<not> minify (example_opts ''android'')"
    "port (example_opts ''android'') = 8081" "host (example_opts ''android'') = ''127.0.0.1''"
    "entry android_config = ''./index.android.js''"
    by (simp_all add: example_world_def example_opts_def android_config_def)
  from start_forward_failure_caught [OF example_exists example_require example_configs example_webpack
      example_createServer h6]
  have "start example_world (example_opts ''android'') =
     ([Require ''/app/webpack.haul.js'',
       MakeReactNativeConfig ''module'' ''/app'' True False,
       Console Clear,
       Webpack (Config android_config),
       CreateServer ''compiler'' onBuildStart (onBuildComplete (example_opts ''android'')),
       Exec ''/sdk/platform-tools/adb reverse tcp:8081 tcp:8081'',
       Console (Log Warn (CommandFailed ''adb reverse tcp:8081 tcp:8081''
         ''error: no devices/emulators found'')),
       Listen ''app'' 8081 ''127.0.0.1''
         (Inr [Log Info (InitialStartInformation [''./index.android.js''] ''127.0.0.1'' 8081)])],
      Fulfilled)"
    using ex
    by (simp add: example_select_android example_adb example_args example_basename vals
        onListening_def)
  with h6 ex' show ?thesis by simp
qed

text \<open>
  Claim C5.  In a run for \<open>android\<close> that reaches the port forwarding step, \<open>args\<close> is
  \<open>reverse tcp:P tcp:P\<close> for the port \<open>P\<close> of the options, and the only command given to
  \<open>exec\<close> is the path of \<open>adb\<close>, a space, and that string.
\<close>

theorem start_forward_command:
  assumes "existsSync w (path_join w (cwd w) ''webpack.haul.js'')"
    and "require w (path_join w (cwd w) ''webpack.haul.js'') = Inr raw"
    and "makeReactNativeConfig w raw (cwd w) (dev opts) (minify opts) = Inr (cs, ps)"
    and "webpack w (select_config opts cs ps) = Inr compiler"
    and "createServer w compiler = Inr app"
    and "platform opts = ''android''"
  shows "args w opts = ''reverse tcp:'' @ toString w (port opts) @ '' tcp:'' @ toString w (port opts) \<and>
         exec_calls (fst (start w opts)) =
           [adb w @ '' '' @ ''reverse tcp:'' @ toString w (port opts) @ '' tcp:'' @ toString w (port opts)]"
  using assms(6)
  by (simp add: start_served [OF assms(1-5)] fst_emit exec_calls_forward) (simp add: args_def)

text \<open>The command of the concrete project for the port 8081.\<close>

theorem start_forward_command_witness:
  "platform (example_opts ''android'') = ''android'' \<and>
   exec_calls (fst (start example_world (example_opts ''android''))) =
     [''/sdk/platform-tools/adb reverse tcp:8081 tcp:8081'']"
proof -
  have h6: "platform (example_opts ''android'') = ''android''"
    by (simp add: example_opts_def)
  have p: "toString example_world (port (example_opts ''android'')) = ''8081''"
    by (simp add: example_world_def example_opts_def decimal.simps)
  from start_forward_command [OF example_exists example_require example_configs example_webpack
      example_createServer h6]
  have "exec_calls (fst (start example_world (example_opts ''android''))) =
     [''/sdk/platform-tools/adb reverse tcp:8081 tcp:8081'']"
    by (simp add: example_adb p)
  with h6 show ?thesis by simp
qed

text \<open>
  Claim C10.  In every run for a platform other than \<open>android\<close>, \<open>all\<close> included,
  nothing is given to \<open>exec\<close>.
\<close>

theorem forward_only_android:
  assumes "platform opts \<noteq> ''android''"
  shows "exec_calls (fst (start w opts)) = []"
  using assms
  by (simp add: start_def Let_def fst_emit exec_calls_serve_other split: sum.split prod.split)

text \<open>For \<open>all\<close>, both configurations are compiled and nothing is given to \<open>exec\<close>.\<close>

theorem forward_only_android_witness:
  "platform (example_opts ''all'') \<noteq> ''android'' \<and>
   exec_calls (fst (start example_world (example_opts ''all''))) = [] \<and>
   webpack_calls (fst (start example_world (example_opts ''all''))) =
     [Configs [ios_config, android_config]]"
proof -
  have h: "platform (example_opts ''all'') \<noteq> ''android''"
    by (simp add: example_opts_def)
  have "select_config (example_opts ''all'') [ios_config, android_config] [''ios'', ''android''] =
      Configs [ios_config, android_config]"
    by (simp add: select_config_def example_opts_def)
  with h forward_only_android [OF h, of example_world]
    webpack_calls_start [OF example_exists example_require example_configs, of "''all''"]
  show ?thesis by simp
qed

subsection \<open>The callbacks\<close>

text \<open>
  Claim C7.  When it is called, the callback of \<open>app.listen\<close> logs, with \<open>logger.info\<close>,
  the message \<open>initialStartInformation\<close> built from the host, the port and the entries:
  the \<open>entry\<close> of every element when \<open>config\<close> is an array, the one \<open>entry\<close> when it is a
  single configuration.  In a run for \<open>all\<close> with two configurations, \<open>start\<close> ends with
  \<open>app.listen\<close> and a callback that logs the two entries.
\<close>

theorem listening_summary:
  "onListening opts (Configs cs) =
     Inr [Log Info (InitialStartInformation (map entry cs) (host opts) (port opts))] \<and>
   onListening opts (Config c) =
     Inr [Log Info (InitialStartInformation [entry c] (host opts) (port opts))] \<and>
   (existsSync w (path_join w (cwd w) ''webpack.haul.js'') \<and>
    require w (path_join w (cwd w) ''webpack.haul.js'') = Inr raw \<and>
    makeReactNativeConfig w raw (cwd w) (dev opts) (minify opts) = Inr ([c1, c2], ps) \<and>
    webpack w (Configs [c1, c2]) = Inr compiler \<and>
    createServer w compiler = Inr app \<and>
    platform opts = ''all'' \<longrightarrow>
      snd (start w opts) = Fulfilled \<and>
      last (fst (start w opts)) =
        Listen app (port opts) (host opts)
          (Inr [Log Info (InitialStartInformation [entry c1, entry c2] (host opts) (port opts))]))"
proof (intro conjI impI)
  show "onListening opts (Configs cs) =
     Inr [Log Info (InitialStartInformation (map entry cs) (host opts) (port opts))]"
    by (simp add: onListening_def)
  show "onListening opts (Config c) =
     Inr [Log Info (InitialStartInformation [entry c] (host opts) (port opts))]"
    by (simp add: onListening_def)
next
  assume h: "existsSync w (path_join w (cwd w) ''webpack.haul.js'') \<and>
    require w (path_join w (cwd w) ''webpack.haul.js'') = Inr raw \<and>
    makeReactNativeConfig w raw (cwd w) (dev opts) (minify opts) = Inr ([c1, c2], ps) \<and>
    webpack w (Configs [c1, c2]) = Inr compiler \<and>
    createServer w compiler = Inr app \<and>
    platform opts = ''all''"
  then have sel: "select_config opts [c1, c2] ps = Configs [c1, c2]"
    by (simp add: select_config_def)
  from h have "webpack w (select_config opts [c1, c2] ps) = Inr compiler"
    by (simp add: sel)
  with h have st: "start w opts =
           emit (Require (path_join w (cwd w) ''webpack.haul.js''))
             (emit (MakeReactNativeConfig raw (cwd w) (dev opts) (minify opts))
               (emit (Console Clear)
                 (emit (Webpack (select_config opts [c1, c2] ps))
                   (emit (CreateServer compiler onBuildStart (onBuildComplete opts))
                     (forward w opts app (select_config opts [c1, c2] ps))))))"
    by (intro start_served) simp_all
  from h have fw: "forward w opts app (Configs [c1, c2]) = listen opts app (Configs [c1, c2])"
    by (simp add: forward_def)
  show "snd (start w opts) = Fulfilled"
    by (simp add: st sel fw snd_emit listen_def)
  show "last (fst (start w opts)) =
        Listen app (port opts) (host opts)
          (Inr [Log Info (InitialStartInformation [entry c1, entry c2] (host opts) (port opts))])"
    by (simp add: st sel fw fst_emit listen_def onListening_def)
qed

text \<open>The second scenario of the specification: for \<open>all\<close> the summary has two entries.\<close>

theorem listening_summary_witness:
  "platform (example_opts ''all'') = ''all'' \<and>
   snd (start example_world (example_opts ''all'')) = Fulfilled \<and>
   last (fst (start example_world (example_opts ''all''))) =
     Listen ''app'' 8081 ''127.0.0.1''
       (Inr [Log Info (InitialStartInformation [''./index.ios.js'', ''./index.android.js'']
          ''127.0.0.1'' 8081)])"
proof -
  have h6: "platform (example_opts ''all'') = ''all''"
    by (simp add: example_opts_def)
  have vals: "port (example_opts ''all'') = 8081" "host (example_opts ''all'') = ''127.0.0.1''"
    "entry android_config = ''./index.android.js''" "entry ios_config = ''./index.ios.js''"
    by (simp_all add: example_opts_def android_config_def ios_config_def)
  have run: "existsSync example_world (path_join example_world (cwd example_world) ''webpack.haul.js'') \<and>
    require example_world (path_join example_world (cwd example_world) ''webpack.haul.js'') = Inr ''module'' \<and>
    makeReactNativeConfig example_world ''module'' (cwd example_world)
      (dev (example_opts ''all'')) (minify (example_opts ''all'')) =
      Inr ([ios_config, android_config], [''ios'', ''android'']) \<and>
    webpack example_world (Configs [ios_config, android_config]) = Inr ''compiler'' \<and>
    createServer example_world ''compiler'' = Inr ''app'' \<and>
    platform (example_opts ''all'') = ''all''"
    using example_exists example_require example_configs [of "''all''"] example_webpack
      example_createServer h6
    by simp
  from listening_summary [of "example_opts ''all''" "[]" ios_config example_world "''module''"
      ios_config android_config "[''ios'', ''android'']" "''compiler''" "''app''"] run
  have "snd (start example_world (example_opts ''all'')) = Fulfilled \<and>
    last (fst (start example_world (example_opts ''all''))) =
      Listen ''app'' (port (example_opts ''all'')) (host (example_opts ''all''))
        (Inr [Log Info (InitialStartInformation [entry ios_config, entry android_config]
           (host (example_opts ''all'')) (port (example_opts ''all'')))])"
    by blast
  with h6 show ?thesis by (simp add: vals)
qed

text \<open>
  Claim C8.  For every \<open>stats\<close>, the build callback first clears the screen; it logs
  with \<open>logger.error\<close> exactly when \<open>stats.hasErrors()\<close>, and the message is then
  \<open>bundleFailed\<close>; otherwise it logs with \<open>logger.done\<close> the message \<open>bundleBuilt\<close> built
  from the \<open>stats\<close> and the requested platform.  This function is the callback that
  \<open>start\<close> gives to \<open>createServer\<close>.
\<close>

theorem onBuildComplete_reports:
  "hd (onBuildComplete opts st) = Clear \<and>
   ((\<exists>m. Log Error m \<in> set (onBuildComplete opts st)) \<longleftrightarrow> hasErrors st) \<and>
   (hasErrors st \<longrightarrow> onBuildComplete opts st = [Clear, Log Error BundleFailed]) \<and>
   (\<not> hasErrors st \<longrightarrow>
      onBuildComplete opts st = [Clear, Log Done (BundleBuilt st (platform opts))]) \<and>
   (existsSync w (path_join w (cwd w) ''webpack.haul.js'') \<and>
    require w (path_join w (cwd w) ''webpack.haul.js'') = Inr raw \<and>
    makeReactNativeConfig w raw (cwd w) (dev opts) (minify opts) = Inr (cs, ps) \<and>
    webpack w (select_config opts cs ps) = Inr compiler \<longrightarrow>
      CreateServer compiler onBuildStart (onBuildComplete opts) \<in> set (fst (start w opts)))"
proof (intro conjI impI)
  show "hd (onBuildComplete opts st) = Clear"
    by (simp add: onBuildComplete_def)
  show "(\<exists>m. Log Error m \<in> set (onBuildComplete opts st)) \<longleftrightarrow> hasErrors st"
    by (auto simp add: onBuildComplete_def)
next
  assume "hasErrors st"
  then show "onBuildComplete opts st = [Clear, Log Error BundleFailed]"
    by (simp add: onBuildComplete_def)
next
  assume "\<not> hasErrors st"
  then show "onBuildComplete opts st = [Clear, Log Done (BundleBuilt st (platform opts))]"
    by (simp add: onBuildComplete_def)
next
  assume h: "existsSync w (path_join w (cwd w) ''webpack.haul.js'') \<and>
    require w (path_join w (cwd w) ''webpack.haul.js'') = Inr raw \<and>
    makeReactNativeConfig w raw (cwd w) (dev opts) (minify opts) = Inr (cs, ps) \<and>
    webpack w (select_config opts cs ps) = Inr compiler"
  then have "start w opts =
           emit (Require (path_join w (cwd w) ''webpack.haul.js''))
             (emit (MakeReactNativeConfig raw (cwd w) (dev opts) (minify opts))
               (serve w opts (select_config opts cs ps)))"
    by (intro start_loaded) simp_all
  with h show "CreateServer compiler onBuildStart (onBuildComplete opts) \<in> set (fst (start w opts))"
    by (simp add: serve_def fst_emit)
qed

text \<open>The build callback of the concrete project, on a failed and on a successful build.\<close>

theorem onBuildComplete_reports_witness:
  "onBuildComplete (example_opts ''ios'') \<lparr>hasErrors = True, \<dots> = ''stats''\<rparr> =
     ([Clear, Log Error BundleFailed] :: (string, nat) terminal list) \<and>
   onBuildComplete (example_opts ''ios'') \<lparr>hasErrors = False, \<dots> = ''stats''\<rparr> =
     ([Clear, Log Done (BundleBuilt \<lparr>hasErrors = False, \<dots> = ''stats''\<rparr> ''ios'')]
        :: (string, nat) terminal list) \<and>
   CreateServer ''compiler'' onBuildStart (onBuildComplete (example_opts ''ios''))
     \<in> set (fst (start example_world (example_opts ''ios'')))"
proof -
  have p: "platform (example_opts ''ios'') = ''ios''"
    by (simp add: example_opts_def)
  from onBuildComplete_reports [of "example_opts ''ios''" "\<lparr>hasErrors = True, \<dots> = ''stats''\<rparr>" example_world
      "''module''" "[ios_config, android_config]" "[''ios'', ''android'']" "''compiler''"]
    onBuildComplete_reports [of "example_opts ''ios''" "\<lparr>hasErrors = False, \<dots> = ''stats''\<rparr>" example_world
      "''module''" "[ios_config, android_config]" "[''ios'', ''android'']" "''compiler''"]
    example_exists example_require example_configs [of "''ios''"] example_webpack
  show ?thesis by (simp add: p)
qed

subsection \<open>The options\<close>

text \<open>
  Claim C6.  The default of \<open>minify\<close> is the string of the negation of \<open>dev\<close>:
  \<open>false\<close> for \<open>dev = true\<close>, \<open>true\<close> for \<open>dev = false\<close>, and parsing it gives the
  negation of \<open>dev\<close>.
\<close>

theorem minify_default_negates_dev:
  "minify_default True = ''false'' \<and> minify_default False = ''true'' \<and>
   minify_parse (minify_default d) = (\<not> d)"
  by (simp add: minify_default_def minify_parse_def String_of_bool_def)

text \<open>
  Claim C9.  The parsers of \<open>dev\<close> and \<open>minify\<close> give \<open>true\<close> exactly for the strings
  other than \<open>false\<close>; so \<open>0\<close>, \<open>no\<close>, \<open>False\<close> and the empty string parse to
  \<open>true\<close>.
\<close>

theorem parse_true_unless_false:
  "dev_parse val = (val \<noteq> ''false'') \<and> minify_parse val = (val \<noteq> ''false'') \<and>
   dev_parse ''0'' \<and> dev_parse ''no'' \<and> dev_parse ''False'' \<and> dev_parse [] \<and>
   minify_parse ''0'' \<and> minify_parse ''no'' \<and> minify_parse ''False'' \<and> minify_parse []"
  by (simp add: dev_parse_def minify_parse_def)

end
